theory Spec2Isabelle
  imports Complex_Main "HOL-Library.Word"
begin

section \<open>The arithmetic library, as the program uses it\<close>

text \<open>
  \<^verbatim>\<open>Perhitungan.cpp\<close> computes with \<^verbatim>\<open>mpfr::mpreal\<close>. The header \<^verbatim>\<open>mpreal.h\<close> is not
  part of the repository, so the operations the program calls are parameters of the
  model: one record field for each constructor, operator or function of the library
  that occurs in the source. Nothing is assumed about them; a theorem that needs an
  arithmetic law names it as a hypothesis.

  A value of type \<open>'v\<close> is one \<^verbatim>\<open>mpreal\<close> object (its digits together with its own
  precision). The string constructor is the one operation the program itself treats as
  able to throw (lines 175-181 and 203-209 wrap it in \<^verbatim>\<open>try\<close>), so it returns an option:
  \<open>None\<close> is the exception.
\<close>

record 'v mpreal_ops =
  mp_default :: "'v"
    \<comment> \<open>\<^verbatim>\<open>mpreal y0;\<close> the default constructor\<close>
  mp_of_int :: "int \<Rightarrow> 'v"
    \<comment> \<open>\<^verbatim>\<open>mpreal(0)\<close>, \<^verbatim>\<open>mpreal(1)\<close>, \<^verbatim>\<open>mpreal(2)\<close>, \<^verbatim>\<open>mpreal(seed_exp)\<close>\<close>
  mp_of_double :: "rat \<Rightarrow> 'v"
    \<comment> \<open>\<^verbatim>\<open>mpreal(0.5)\<close>, \<^verbatim>\<open>mpreal(1.5)\<close>: the argument is the number the double holds\<close>
  mp_of_string :: "string \<Rightarrow> 'v option"
    \<comment> \<open>\<^verbatim>\<open>mpreal(s)\<close> for a \<^verbatim>\<open>std::string\<close>; \<open>None\<close> when it throws\<close>
  mp_add :: "'v \<Rightarrow> 'v \<Rightarrow> 'v"
    \<comment> \<open>\<^verbatim>\<open>x + y\<close>\<close>
  mp_sub :: "'v \<Rightarrow> 'v \<Rightarrow> 'v"
    \<comment> \<open>\<^verbatim>\<open>x - y\<close>\<close>
  mp_mul :: "'v \<Rightarrow> 'v \<Rightarrow> 'v"
    \<comment> \<open>\<^verbatim>\<open>x * y\<close>\<close>
  mp_div :: "'v \<Rightarrow> 'v \<Rightarrow> 'v"
    \<comment> \<open>\<^verbatim>\<open>x / y\<close>\<close>
  mp_int_div :: "int \<Rightarrow> 'v \<Rightarrow> 'v"
    \<comment> \<open>\<^verbatim>\<open>1 / x\<close>: an \<^verbatim>\<open>int\<close> over an \<^verbatim>\<open>mpreal\<close>\<close>
  mp_abs :: "'v \<Rightarrow> 'v"
    \<comment> \<open>\<^verbatim>\<open>abs(x)\<close>\<close>
  mp_sqrt :: "'v \<Rightarrow> 'v"
    \<comment> \<open>\<^verbatim>\<open>mpfr::sqrt(x)\<close>\<close>
  mp_log :: "'v \<Rightarrow> 'v"
    \<comment> \<open>\<^verbatim>\<open>log(x)\<close>\<close>
  mp_pow :: "'v \<Rightarrow> 'v \<Rightarrow> 'v"
    \<comment> \<open>\<^verbatim>\<open>pow(x, y)\<close>\<close>
  mp_eq_zero :: "'v \<Rightarrow> bool"
    \<comment> \<open>\<^verbatim>\<open>x == 0\<close>\<close>
  mp_lt_zero :: "'v \<Rightarrow> bool"
    \<comment> \<open>\<^verbatim>\<open>x < 0\<close>\<close>
  mp_floor_ll :: "'v \<Rightarrow> int"
    \<comment> \<open>\<^verbatim>\<open>static_cast<long long>(std::floor(x.toDouble()))\<close>\<close>
  mp_to_scientific :: "int \<Rightarrow> 'v \<Rightarrow> string"
    \<comment> \<open>\<^verbatim>\<open>os << std::setprecision(n) << std::scientific << x\<close>, the characters written\<close>

text \<open>
  The library keeps a process-wide default precision (in bits) that its constructors
  read. A \<open>library\<close> gives, for each value of that register, the operations as they
  behave while the register holds it. \<^verbatim>\<open>unsigned long\<close> is 64 bits wide (LP64).
\<close>

type_synonym 'v library = "64 word \<Rightarrow> 'v mpreal_ops"

section \<open>The two iterations\<close>

text \<open>
  \<^verbatim>\<open>newton_heron\<close> (lines 51-67). The \<^verbatim>\<open>for\<close> loop is the recursion on the counter \<open>i\<close>;
  \<open>its\<close> is the vector, \<^verbatim>\<open>push_back\<close> appends at the end. The counter is an \<^verbatim>\<open>int\<close> that
  stays below \<open>iterations\<close>, so it cannot overflow. \<^verbatim>\<open>reserve\<close> only allocates.
\<close>

function newton_heron_loop ::
  "'v mpreal_ops \<Rightarrow> 'v \<Rightarrow> int \<Rightarrow> int \<Rightarrow> 'v \<Rightarrow> 'v list \<Rightarrow> 'v \<times> 'v list" where
  "newton_heron_loop ops a iterations i x its =
     (if i < iterations then
        (if mp_eq_zero ops x then
           newton_heron_loop ops a iterations (i + 1) (mp_of_int ops 0) (its @ [mp_of_int ops 0])
         else
           (let xnext = mp_mul ops (mp_add ops x (mp_div ops a x)) (mp_of_double ops (1 / 2))
            in newton_heron_loop ops a iterations (i + 1) xnext (its @ [xnext])))
      else (x, its))"
  by pat_completeness auto
termination
  by (relation "measure (\<lambda>(ops, a, iterations, i, x, its). nat (iterations - i))") auto

declare newton_heron_loop.simps [simp del]

definition newton_heron :: "'v mpreal_ops \<Rightarrow> 'v \<Rightarrow> 'v \<Rightarrow> int \<Rightarrow> 'v \<times> 'v list" where
  "newton_heron ops a x0 iterations = newton_heron_loop ops a iterations 0 x0 [x0]"

text \<open>
  \<^verbatim>\<open>reciprocal_sqrt\<close> (lines 70-83). \<^verbatim>\<open>mpreal(0.5) * a * y2\<close> associates to the left.
\<close>

function reciprocal_sqrt_loop ::
  "'v mpreal_ops \<Rightarrow> 'v \<Rightarrow> int \<Rightarrow> int \<Rightarrow> 'v \<Rightarrow> 'v list \<Rightarrow> 'v \<times> 'v list" where
  "reciprocal_sqrt_loop ops a iterations i y its =
     (if i < iterations then
        (let y2 = mp_mul ops y y;
             ynext = mp_mul ops y
                       (mp_sub ops (mp_of_double ops (3 / 2))
                          (mp_mul ops (mp_mul ops (mp_of_double ops (1 / 2)) a) y2))
         in reciprocal_sqrt_loop ops a iterations (i + 1) ynext (its @ [ynext]))
      else (y, its))"
  by pat_completeness auto
termination
  by (relation "measure (\<lambda>(ops, a, iterations, i, y, its). nat (iterations - i))") auto

declare reciprocal_sqrt_loop.simps [simp del]

definition reciprocal_sqrt :: "'v mpreal_ops \<Rightarrow> 'v \<Rightarrow> 'v \<Rightarrow> int \<Rightarrow> 'v \<times> 'v list" where
  "reciprocal_sqrt ops a y0 iterations =
     (let (y, its) = reciprocal_sqrt_loop ops a iterations 0 y0 [y0];
          sqrt_approx = mp_mul ops a y
      in (sqrt_approx, its))"

section \<open>Precision and the initial guess\<close>

text \<open>
  \<^verbatim>\<open>digits_to_bits\<close> (lines 34-37). The product is taken in exact arithmetic with the
  decimal constant of the source. The rounding of the \<^verbatim>\<open>long double\<close> product is not
  modelled: where the exact product lies within a rounding error of an integer, the
  result of the code can differ by one from the one here. The conversion to
  \<^verbatim>\<open>unsigned long\<close> keeps the low 64 bits, where C++ leaves a product beyond that range
  undefined. The two agree at 0 and on the bound of four bits a digit, which is all
  that the properties below take from this definition.
\<close>

definition LOG2_10 :: rat where
  "LOG2_10 = 3321928094887362347870319429489 / 10 ^ 30"

definition digits_to_bits :: "64 word \<Rightarrow> 64 word" where
  "digits_to_bits dec_digits = word_of_int \<lceil>of_int (uint dec_digits) * LOG2_10\<rceil>"

text \<open>
  The \<^verbatim>\<open>/\<close> of C++ on \<^verbatim>\<open>long long\<close> rounds towards zero; \<open>div\<close> on \<open>int\<close> rounds down.
  \<^verbatim>\<open>long long\<close> is modelled by \<open>int\<close>: the sum \<^verbatim>\<open>exp_floor + 2\<close> is the only arithmetic on it,
  and its overflow is undefined in C++.
\<close>

definition ll_div :: "int \<Rightarrow> int \<Rightarrow> int" where
  "ll_div p q = (if (p < 0) = (q < 0) then \<bar>p\<bar> div \<bar>q\<bar> else - (\<bar>p\<bar> div \<bar>q\<bar>))"

text \<open>What the program throws: the exception of the string constructor, and the
  \<^verbatim>\<open>std::runtime_error\<close> of line 89 with its message.\<close>

datatype exn = ParseException | RuntimeError string

text \<open>\<^verbatim>\<open>auto_initial_guess\<close> (lines 86-98).\<close>

definition auto_initial_guess :: "'v mpreal_ops \<Rightarrow> 'v \<Rightarrow> exn + 'v" where
  "auto_initial_guess ops a =
     (if mp_eq_zero ops a then Inr (mp_of_int ops 0)
      else if mp_lt_zero ops a then Inl (RuntimeError ''auto_initial_guess: negative input'')
      else
        (let log2a = mp_div ops (mp_log ops a) (mp_log ops (mp_of_int ops 2));
             exp_floor = mp_floor_ll ops log2a;
             seed_exp = ll_div (exp_floor + 2) 2;
             x0 = mp_pow ops (mp_of_int ops 2) (mp_of_int ops seed_exp)
         in Inr x0))"

section \<open>Error columns\<close>

text \<open>
  The loop of \<^verbatim>\<open>save_iterations_csv\<close> (lines 109-114) and the table loop of \<^verbatim>\<open>main\<close>
  (lines 310-315) have the same body; a row is what one pass writes: the index, the
  value, the absolute and the relative error. The formatting of the numbers and the
  file are not modelled: \<open>save_iterations_csv\<close> gives the rows written to a file that
  opens, and for one that does not open (lines 103-106) the source writes none.
\<close>

type_synonym 'v row = "nat \<times> 'v \<times> 'v \<times> 'v"

function error_rows :: "'v mpreal_ops \<Rightarrow> 'v list \<Rightarrow> 'v \<Rightarrow> nat \<Rightarrow> 'v row list" where
  "error_rows ops its reference i =
     (if i < length its then
        (let val = its ! i;
             abs_err = mp_abs ops (mp_sub ops val reference);
             rel_err = (if mp_eq_zero ops reference then mp_of_int ops 0
                        else mp_div ops abs_err (mp_abs ops reference))
         in (i, val, abs_err, rel_err) # error_rows ops its reference (i + 1))
      else [])"
  by pat_completeness auto
termination
  by (relation "measure (\<lambda>(ops, its, reference, i). length its - i)") auto

declare error_rows.simps [simp del]

definition save_iterations_csv :: "'v mpreal_ops \<Rightarrow> 'v list \<Rightarrow> 'v \<Rightarrow> 'v row list" where
  "save_iterations_csv ops its reference = error_rows ops its reference 0"

section \<open>The program\<close>

text \<open>
  \<^verbatim>\<open>struct Options\<close> (lines 119-128); the field \<^verbatim>\<open>method\<close> is \<open>meth\<close> here. \<^verbatim>\<open>int\<close> is
  modelled by \<open>int\<close>: the program only compares the iteration count.
\<close>

record options =
  number :: string
  prec_digits :: "64 word"
  iterations :: int
  init_mode :: string
  init_value :: string
  meth :: string
  save_csv :: string
  show_help :: bool

text \<open>
  The default precision of the library is the one piece of state the program changes.
  \<open>set_default_prec\<close> is the register after a call of the library's setter that returns;
  \<open>main_run\<close> below adds the call that does not.
\<close>

record proc_state =
  default_prec :: "64 word"

definition set_default_prec :: "64 word \<Rightarrow> proc_state \<Rightarrow> proc_state" where
  "set_default_prec p st = st\<lparr>default_prec := p\<rparr>"

definition get_default_prec :: "proc_state \<Rightarrow> 64 word" where
  "get_default_prec st = default_prec st"

definition current :: "'v library \<Rightarrow> proc_state \<Rightarrow> 'v mpreal_ops" where
  "current lib st = lib (get_default_prec st)"

text \<open>
  The ways \<^verbatim>\<open>main\<close> ends without a result: the five \<^verbatim>\<open>return 1\<close> (lines 180, 184, 216,
  233, 270), named after the message each prints, and an exception that nothing catches.
\<close>

datatype failure =
    ParseError
  | NegativeInput
  | MissingInitValue
  | ZeroReciprocalGuess
  | UnknownMethod
  | Uncaught exn

text \<open>
  The reference (lines 187-209). \<^verbatim>\<open>static_cast<int>\<close> keeps the low 32 bits of
  \<^verbatim>\<open>ref_print_digits\<close> and reads them as a signed number.
\<close>

definition build_reference ::
  "'v library \<Rightarrow> options \<Rightarrow> 'v \<Rightarrow> proc_state \<Rightarrow> (exn + 'v) \<times> proc_state" where
  "build_reference lib opt a st =
     (let extra_bits = 64;
          orig_prec = get_default_prec st;
          ref_prec = orig_prec + extra_bits;
          st1 = set_default_prec ref_prec st
      in case mp_of_string (current lib st1) (number opt) of
           None \<Rightarrow> (Inl ParseException, st1)
         | Some a_high \<Rightarrow>
             (let ref_sqrt_high = mp_sqrt (current lib st1) a_high;
                  ref_print_digits = prec_digits opt + 20;
                  ref_str = mp_to_scientific (current lib st1)
                              (sint (ucast ref_print_digits :: 32 word)) ref_sqrt_high;
                  st2 = set_default_prec orig_prec st1;
                  reference = (case mp_of_string (current lib st2) ref_str of
                                 Some r \<Rightarrow> r
                               | None \<Rightarrow> mp_sqrt (current lib st2) a)
              in (Inr reference, st2)))"

text \<open>The initial guess (lines 211-223).\<close>

definition prepare_guess :: "'v mpreal_ops \<Rightarrow> options \<Rightarrow> 'v \<Rightarrow> failure + 'v" where
  "prepare_guess ops opt a =
     (if init_mode opt = ''manual'' then
        (if init_value opt = [] then Inl MissingInitValue
         else case mp_of_string ops (init_value opt) of
                None \<Rightarrow> Inl (Uncaught ParseException)
              | Some x0 \<Rightarrow> Inr x0)
      else case auto_initial_guess ops a of
             Inl e \<Rightarrow> Inl (Uncaught e)
           | Inr x0 \<Rightarrow> Inr x0)"

text \<open>The seed of the reciprocal method (lines 225-246).\<close>

definition prepare_reciprocal :: "'v mpreal_ops \<Rightarrow> options \<Rightarrow> 'v \<Rightarrow> failure + 'v" where
  "prepare_reciprocal ops opt x0 =
     (if meth opt = ''recip'' then
        (if init_mode opt = ''manual'' \<and> init_value opt \<noteq> [] then
           (case mp_of_string ops (init_value opt) of
              None \<Rightarrow> Inl (Uncaught ParseException)
            | Some sqrt_guess \<Rightarrow>
                if mp_eq_zero ops sqrt_guess then Inl ZeroReciprocalGuess
                else Inr (mp_int_div ops 1 sqrt_guess))
         else if mp_eq_zero ops x0 then Inr (mp_of_int ops 1)
         else Inr (mp_int_div ops 1 x0))
      else Inr (mp_default ops))"

text \<open>The chosen method (lines 248-271); the timer only measures.\<close>

definition run_method ::
  "'v mpreal_ops \<Rightarrow> options \<Rightarrow> 'v \<Rightarrow> 'v \<Rightarrow> 'v \<Rightarrow> failure + 'v \<times> 'v list" where
  "run_method ops opt a x0 y0 =
     (if meth opt = ''heron'' then Inr (newton_heron ops a x0 (iterations opt))
      else if meth opt = ''recip'' then Inr (reciprocal_sqrt ops a y0 (iterations opt))
      else Inl UnknownMethod)"

text \<open>What a run that returns 0 has printed, as values (lines 273-320).\<close>

record 'v report =
  guess_used :: 'v
  reference_value :: 'v
  builtin_sqrt :: 'v
  final_approx :: 'v
  final_abs_err :: 'v
  final_rel_err :: 'v
  table :: "'v row list"
  csv :: "'v row list option"

datatype 'v outcome = HelpShown | Report "'v report"

definition report_of ::
  "'v mpreal_ops \<Rightarrow> options \<Rightarrow> 'v \<Rightarrow> 'v \<Rightarrow> 'v \<Rightarrow> 'v \<Rightarrow> 'v \<times> 'v list \<Rightarrow> 'v report" where
  "report_of ops opt a reference x0 y0 raw_result =
     (let approx = fst raw_result;
          its = snd raw_result;
          builtin = mp_sqrt ops a;
          abs_err_final = mp_abs ops (mp_sub ops approx reference);
          rel_err_final = (if mp_eq_zero ops reference then mp_of_int ops 0
                           else mp_div ops abs_err_final (mp_abs ops reference))
      in \<lparr>guess_used = (if meth opt = ''heron'' then x0 else y0),
          reference_value = reference,
          builtin_sqrt = builtin,
          final_approx = approx,
          final_abs_err = abs_err_final,
          final_rel_err = rel_err_final,
          table = error_rows ops its reference 0,
          csv = (if save_csv opt \<noteq> [] then Some (save_iterations_csv ops its reference)
                 else None)\<rparr>)"

text \<open>
  \<^verbatim>\<open>main\<close> (lines 165-337), after \<^verbatim>\<open>parse_args\<close>: from the options and the state of the
  library to the way the run ends and the state it leaves.
\<close>

definition main_model ::
  "'v library \<Rightarrow> options \<Rightarrow> proc_state \<Rightarrow> (failure + 'v outcome) \<times> proc_state" where
  "main_model lib opt st0 =
     (if show_help opt then (Inr HelpShown, st0)
      else
        (let bits = digits_to_bits (prec_digits opt);
             st1 = set_default_prec bits st0
         in case mp_of_string (current lib st1) (number opt) of
              None \<Rightarrow> (Inl ParseError, st1)
            | Some a \<Rightarrow>
                if mp_lt_zero (current lib st1) a then (Inl NegativeInput, st1)
                else
                  (case build_reference lib opt a st1 of
                     (Inl e, st2) \<Rightarrow> (Inl (Uncaught e), st2)
                   | (Inr reference, st2) \<Rightarrow>
                       (let ops = current lib st2
                        in case prepare_guess ops opt a of
                             Inl f \<Rightarrow> (Inl f, st2)
                           | Inr x0 \<Rightarrow>
                               (case prepare_reciprocal ops opt x0 of
                                  Inl f \<Rightarrow> (Inl f, st2)
                                | Inr y0 \<Rightarrow>
                                    (case run_method ops opt a x0 y0 of
                                       Inl f \<Rightarrow> (Inl f, st2)
                                     | Inr raw_result \<Rightarrow>
                                         (Inr (Report (report_of ops opt a reference x0 y0
                                                         raw_result)), st2)))))))"

text \<open>
  The setter of the library (lines 171, 191 and 200) is not in the repository either. It
  may refuse the precision it is handed and end the process there; which precisions it
  takes is the parameter \<open>prec_ok\<close>. \<open>main_run\<close> is \<^verbatim>\<open>main\<close> with such a setter: the steps up
  to line 191 are written out, and once the raised precision is taken no later call can
  be refused (line 200 hands back the precision line 171 took), so from there the run
  is the one \<open>main_model\<close> gives.
\<close>

datatype 'r run_end = AbortedInSetter "64 word" | Ended 'r

definition main_run ::
  "(64 word \<Rightarrow> bool) \<Rightarrow> 'v library \<Rightarrow> options \<Rightarrow> proc_state \<Rightarrow>
     ((failure + 'v outcome) \<times> proc_state) run_end" where
  "main_run prec_ok lib opt st0 =
     (if show_help opt then Ended (Inr HelpShown, st0)
      else
        (let bits = digits_to_bits (prec_digits opt)
         in if \<not> prec_ok bits then AbortedInSetter bits
            else
              (let st1 = set_default_prec bits st0
               in case mp_of_string (current lib st1) (number opt) of
                    None \<Rightarrow> Ended (Inl ParseError, st1)
                  | Some a \<Rightarrow>
                      if mp_lt_zero (current lib st1) a then Ended (Inl NegativeInput, st1)
                      else
                        (let ref_prec = get_default_prec st1 + 64
                         in if \<not> prec_ok ref_prec then AbortedInSetter ref_prec
                            else Ended (main_model lib opt st0)))))"

section \<open>Notions used to state the properties\<close>

text \<open>One pass of each loop body, as a function of the current iterate.\<close>

definition heron_step :: "'v mpreal_ops \<Rightarrow> 'v \<Rightarrow> 'v \<Rightarrow> 'v" where
  "heron_step ops a x =
     (if mp_eq_zero ops x then mp_of_int ops 0
      else mp_mul ops (mp_add ops x (mp_div ops a x)) (mp_of_double ops (1 / 2)))"

definition recip_step :: "'v mpreal_ops \<Rightarrow> 'v \<Rightarrow> 'v \<Rightarrow> 'v" where
  "recip_step ops a y =
     mp_mul ops y
       (mp_sub ops (mp_of_double ops (3 / 2))
          (mp_mul ops (mp_mul ops (mp_of_double ops (1 / 2)) a) (mp_mul ops y y)))"

text \<open>
  What it takes for a value \<open>r\<close> to behave like a number around zero: the constant
  \<^verbatim>\<open>mpreal(0)\<close> compares equal to zero, \<open>r - r\<close> is zero, the absolute value of a zero is a
  zero, and, when \<open>r\<close> is not zero, a zero over \<open>|r|\<close> is a zero.
\<close>

definition zero_laws :: "'v mpreal_ops \<Rightarrow> 'v \<Rightarrow> bool" where
  "zero_laws ops r \<longleftrightarrow>
     mp_eq_zero ops (mp_of_int ops 0) \<and>
     mp_eq_zero ops (mp_sub ops r r) \<and>
     (\<forall>z. mp_eq_zero ops z \<longrightarrow> mp_eq_zero ops (mp_abs ops z)) \<and>
     (\<not> mp_eq_zero ops r \<longrightarrow>
        (\<forall>z. mp_eq_zero ops z \<longrightarrow> mp_eq_zero ops (mp_div ops z (mp_abs ops r))))"


section \<open>A library to run the model on\<close>

text \<open>
  Exact rational arithmetic, with just enough of the other operations to run the
  program on small inputs: strings are decimal integers with an optional minus sign,
  the square root and the logarithm are the integer ones (rounded down, the logarithm
  to base 2), the power takes the integer part of its exponent, and the printer writes
  integers and nothing else. The default precision plays no part.
\<close>

definition digit_value :: "char \<Rightarrow> int option" where
  "digit_value c = (if c \<in> set ''0123456789'' then Some (of_char c - 48) else None)"

fun digits_value :: "string \<Rightarrow> int \<Rightarrow> int option" where
  "digits_value [] acc = Some acc"
| "digits_value (c # cs) acc =
     (case digit_value c of None \<Rightarrow> None | Some d \<Rightarrow> digits_value cs (10 * acc + d))"

definition exact_of_string :: "string \<Rightarrow> rat option" where
  "exact_of_string s =
     (case s of
        [] \<Rightarrow> None
      | c # cs \<Rightarrow>
          if c = CHR ''-'' then
            (if cs = [] then None else map_option (\<lambda>n. - of_int n) (digits_value cs 0))
          else map_option of_int (digits_value s 0))"

function digits_of :: "int \<Rightarrow> string" where
  "digits_of n =
     (if n < 10 then [''0123456789'' ! nat n]
      else digits_of (n div 10) @ [''0123456789'' ! nat (n mod 10)])"
  by pat_completeness auto
termination
  by (relation "measure nat") auto

declare digits_of.simps [simp del]

definition exact_to_string :: "rat \<Rightarrow> string" where
  "exact_to_string x =
     (if x = of_int \<lfloor>x\<rfloor> then
        (if x < 0 then CHR ''-'' # digits_of (- \<lfloor>x\<rfloor>) else digits_of \<lfloor>x\<rfloor>)
      else ''?'')"

fun isqrt_below :: "nat \<Rightarrow> nat \<Rightarrow> nat" where
  "isqrt_below n 0 = 0"
| "isqrt_below n (Suc k) = (if Suc k * Suc k \<le> n then Suc k else isqrt_below n k)"

fun ilog2 :: "nat \<Rightarrow> nat" where
  "ilog2 n = (if n < 2 then 0 else Suc (ilog2 (n div 2)))"

definition exact_pow :: "rat \<Rightarrow> rat \<Rightarrow> rat" where
  "exact_pow x y = (if 0 \<le> \<lfloor>y\<rfloor> then x ^ nat \<lfloor>y\<rfloor> else 1 / x ^ nat (- \<lfloor>y\<rfloor>))"

definition exact_ops :: "rat mpreal_ops" where
  "exact_ops =
     \<lparr>mp_default = 0,
      mp_of_int = of_int,
      mp_of_double = (\<lambda>d. d),
      mp_of_string = exact_of_string,
      mp_add = (+),
      mp_sub = (-),
      mp_mul = (*),
      mp_div = (/),
      mp_int_div = (\<lambda>n x. of_int n / x),
      mp_abs = abs,
      mp_sqrt = (\<lambda>x. of_nat (isqrt_below (nat \<lfloor>x\<rfloor>) (nat \<lfloor>x\<rfloor>))),
      mp_log = (\<lambda>x. of_nat (ilog2 (nat \<lfloor>x\<rfloor>))),
      mp_pow = exact_pow,
      mp_eq_zero = (\<lambda>x. x = 0),
      mp_lt_zero = (\<lambda>x. x < 0),
      mp_floor_ll = floor,
      mp_to_scientific = (\<lambda>n x. exact_to_string x)\<rparr>"

definition exact_lib :: "rat library" where
  "exact_lib p = exact_ops"

text \<open>
  The same library, with a string constructor that never throws: it reads the decimal
  integer the string starts with (after a minus sign, if there is one) and leaves the
  rest unread; a string that starts with no digit gives 0.
\<close>

fun digits_prefix :: "string \<Rightarrow> int \<Rightarrow> int" where
  "digits_prefix [] acc = acc"
| "digits_prefix (c # cs) acc =
     (case digit_value c of None \<Rightarrow> acc | Some d \<Rightarrow> digits_prefix cs (10 * acc + d))"

definition lenient_of_string :: "string \<Rightarrow> rat option" where
  "lenient_of_string s =
     Some (case s of
             [] \<Rightarrow> 0
           | c # cs \<Rightarrow>
               if c = CHR ''-'' then - of_int (digits_prefix cs 0)
               else of_int (digits_prefix s 0))"

definition lenient_lib :: "rat library" where
  "lenient_lib p = exact_ops\<lparr>mp_of_string := lenient_of_string\<rparr>"

text \<open>A setter that takes every precision but 0 bits.\<close>

definition positive_prec :: "64 word \<Rightarrow> bool" where
  "positive_prec p \<longleftrightarrow> p \<noteq> 0"

text \<open>The same library, with a printer that writes the stream precision it is given
  in place of the value.\<close>

definition probe_lib :: "rat library" where
  "probe_lib p = exact_ops\<lparr>mp_to_scientific := (\<lambda>n x. exact_to_string (of_int n))\<rparr>"

text \<open>Options of a run: the square root of 4 to 10 digits, two steps of Heron's
  method from the automatic guess.\<close>

definition sample_options :: options where
  "sample_options =
     \<lparr>number = ''4'', prec_digits = 10, iterations = 2, init_mode = ''auto'',
      init_value = [], meth = ''heron'', save_csv = [], show_help = False\<rparr>"

text \<open>The same run with a digit count at the edge of \<^verbatim>\<open>int\<close>, with no digits at all, on a
  negative number, and with a manual guess that is not a number.\<close>

definition huge_digits_options :: options where
  "huge_digits_options = sample_options\<lparr>prec_digits := 2147483628\<rparr>"

definition zero_digits_options :: options where
  "zero_digits_options = sample_options\<lparr>prec_digits := 0\<rparr>"

definition negative_options :: options where
  "negative_options = sample_options\<lparr>number := ''-1''\<rparr>"

definition malformed_guess_options :: options where
  "malformed_guess_options = sample_options\<lparr>init_mode := ''manual'', init_value := ''2x''\<rparr>"

section \<open>The loops in closed form\<close>

lemma iterates_shift:
  "(its @ [f x]) @ map (\<lambda>j. (f ^^ Suc j) (f x)) [0..<k] =
   its @ map (\<lambda>j. (f ^^ Suc j) x) [0..<Suc k]"
  by (simp add: map_upt_Suc funpow_swap1 del: upt_Suc)

lemma newton_heron_loop_closed:
  "newton_heron_loop ops a n i x its =
     ((heron_step ops a ^^ nat (n - i)) x,
      its @ map (\<lambda>j. (heron_step ops a ^^ Suc j) x) [0..<nat (n - i)])"
proof (induction ops a n i x its rule: newton_heron_loop.induct)
  case (1 ops a n i x its)
  let ?f = "heron_step ops a"
  show ?case
  proof (cases "i < n")
    case False
    then show ?thesis by (subst newton_heron_loop.simps) simp
  next
    case True
    then have k: "nat (n - i) = Suc (nat (n - (i + 1)))" by simp
    have "newton_heron_loop ops a n i x its =
            newton_heron_loop ops a n (i + 1) (?f x) (its @ [?f x])"
      using True by (subst newton_heron_loop.simps) (simp add: heron_step_def Let_def)
    also have "\<dots> = ((?f ^^ nat (n - (i + 1))) (?f x),
           (its @ [?f x]) @ map (\<lambda>j. (?f ^^ Suc j) (?f x)) [0..<nat (n - (i + 1))])"
    proof (cases "mp_eq_zero ops x")
      case z: True
      then have hs: "?f x = mp_of_int ops 0" by (simp add: heron_step_def)
      show ?thesis using "1.IH"(1) [OF True z] by (simp only: hs)
    next
      case nz: False
      then have hs: "?f x = mp_mul ops (mp_add ops x (mp_div ops a x)) (mp_of_double ops (1 / 2))"
        by (simp add: heron_step_def)
      show ?thesis using "1.IH"(2) [OF True nz refl] by (simp only: hs)
    qed
    also have "\<dots> = ((?f ^^ nat (n - i)) x,
           its @ map (\<lambda>j. (?f ^^ Suc j) x) [0..<nat (n - i)])"
      unfolding k iterates_shift by (simp only: funpow_swap1 funpow.simps o_apply)
    finally show ?thesis .
  qed
qed

lemma reciprocal_sqrt_loop_closed:
  "reciprocal_sqrt_loop ops a n i y its =
     ((recip_step ops a ^^ nat (n - i)) y,
      its @ map (\<lambda>j. (recip_step ops a ^^ Suc j) y) [0..<nat (n - i)])"
proof (induction ops a n i y its rule: reciprocal_sqrt_loop.induct)
  case (1 ops a n i y its)
  let ?f = "recip_step ops a"
  show ?case
  proof (cases "i < n")
    case False
    then show ?thesis by (subst reciprocal_sqrt_loop.simps) simp
  next
    case True
    then have k: "nat (n - i) = Suc (nat (n - (i + 1)))" by simp
    have hs: "?f y = mp_mul ops y
       (mp_sub ops (mp_of_double ops (3 / 2))
          (mp_mul ops (mp_mul ops (mp_of_double ops (1 / 2)) a) (mp_mul ops y y)))"
      by (simp add: recip_step_def)
    have "reciprocal_sqrt_loop ops a n i y its =
            reciprocal_sqrt_loop ops a n (i + 1) (?f y) (its @ [?f y])"
      using True by (subst reciprocal_sqrt_loop.simps) (simp add: recip_step_def Let_def)
    also have "\<dots> = ((?f ^^ nat (n - (i + 1))) (?f y),
           (its @ [?f y]) @ map (\<lambda>j. (?f ^^ Suc j) (?f y)) [0..<nat (n - (i + 1))])"
      using "1.IH" [OF True refl refl] by (simp only: hs)
    also have "\<dots> = ((?f ^^ nat (n - i)) y,
           its @ map (\<lambda>j. (?f ^^ Suc j) y) [0..<nat (n - i)])"
      unfolding k iterates_shift by (simp only: funpow_swap1 funpow.simps o_apply)
    finally show ?thesis .
  qed
qed

lemma newton_heron_closed:
  "newton_heron ops a x0 n =
     ((heron_step ops a ^^ nat n) x0, map (\<lambda>j. (heron_step ops a ^^ j) x0) [0..<Suc (nat n)])"
  unfolding newton_heron_def newton_heron_loop_closed
  by (simp add: map_upt_Suc del: upt_Suc)

lemma reciprocal_sqrt_closed:
  "reciprocal_sqrt ops a y0 n =
     (mp_mul ops a ((recip_step ops a ^^ nat n) y0),
      map (\<lambda>j. (recip_step ops a ^^ j) y0) [0..<Suc (nat n)])"
  unfolding reciprocal_sqrt_def reciprocal_sqrt_loop_closed
  by (simp add: map_upt_Suc del: upt_Suc)

lemma iterates_length: "length (map (\<lambda>j. (f ^^ j) x) [0..<Suc m]) = Suc m"
  by simp

lemma iterates_nth: "k \<le> m \<Longrightarrow> map (\<lambda>j. (f ^^ j) x) [0..<Suc m] ! k = (f ^^ k) x"
  using nth_map_upt [of k "Suc m" 0 "\<lambda>j. (f ^^ j) x"] by simp

lemma iterates_last: "last (map (\<lambda>j. (f ^^ j) x) [0..<Suc m]) = (f ^^ m) x"
  by simp


lemma heron_step_absorbs:
  "mp_eq_zero ops (mp_of_int ops 0) \<Longrightarrow> (heron_step ops a ^^ m) (mp_of_int ops 0) = mp_of_int ops 0"
  by (induction m) (simp_all add: heron_step_def)

lemma heron_step_after_zero:
  assumes law: "mp_eq_zero ops (mp_of_int ops 0)"
    and z: "mp_eq_zero ops ((heron_step ops a ^^ k) x)"
    and kj: "k < j"
  shows "(heron_step ops a ^^ j) x = mp_of_int ops 0"
proof -
  obtain m where j: "j = m + Suc k" using kj less_imp_Suc_add [of k j] by auto
  have "(heron_step ops a ^^ Suc k) x = mp_of_int ops 0"
    using z by (simp add: heron_step_def)
  then show ?thesis
    unfolding j funpow_add o_apply using heron_step_absorbs [OF law] by simp
qed

section \<open>The Newton-Heron step\<close>

text \<open>
  Claim C1. For every input \<open>a\<close>, every seed and every step \<open>k\<close> of \<^verbatim>\<open>newton_heron\<close>:
  the iterate after \<open>x\<^sub>k\<close> is \<^verbatim>\<open>mpreal(0)\<close> when \<open>x\<^sub>k == 0\<close>, and otherwise
  \<open>(x\<^sub>k + a / x\<^sub>k) * 0.5\<close> in the arithmetic of the library, the product in the operand
  order of the source; where the product of the library commutes this is
  \<open>0.5 * (x\<^sub>k + a / x\<^sub>k)\<close>. The loop runs all its steps from any seed (the sequence has
  an entry for each), the value returned is the last iterate, and zero is absorbing: in
  a library where \<^verbatim>\<open>mpreal(0) == 0\<close> holds, every iterate after a zero one is \<^verbatim>\<open>mpreal(0)\<close>.
\<close>

theorem newton_heron_recurrence:
  assumes its: "its = snd (newton_heron ops a x0 n)" and k: "int k < n"
  shows "Suc k < length its \<and>
         its ! Suc k =
           (if mp_eq_zero ops (its ! k) then mp_of_int ops 0
            else mp_mul ops (mp_add ops (its ! k) (mp_div ops a (its ! k)))
                   (mp_of_double ops (1 / 2))) \<and>
         ((\<forall>u v. mp_mul ops u v = mp_mul ops v u) \<and> \<not> mp_eq_zero ops (its ! k) \<longrightarrow>
            its ! Suc k =
              mp_mul ops (mp_of_double ops (1 / 2))
                (mp_add ops (its ! k) (mp_div ops a (its ! k)))) \<and>
         fst (newton_heron ops a x0 n) = last its \<and>
         (mp_eq_zero ops (mp_of_int ops 0) \<and> mp_eq_zero ops (its ! k) \<longrightarrow>
            (\<forall>j. k < j \<and> j < length its \<longrightarrow> its ! j = mp_of_int ops 0))"
proof -
  let ?f = "heron_step ops a"
  have form: "its = map (\<lambda>j. (?f ^^ j) x0) [0..<Suc (nat n)]"
    by (simp only: its newton_heron_closed snd_conv)
  have len: "length its = Suc (nat n)"
    unfolding form by (rule iterates_length)
  have nth: "its ! j = (?f ^^ j) x0" if "j \<le> nat n" for j
    unfolding form using that by (rule iterates_nth)
  have kn: "Suc k \<le> nat n" using k by linarith
  have a1: "Suc k < length its" using kn len by simp
  have "its ! Suc k = ?f (its ! k)"
    using nth [of "Suc k"] nth [of k] kn by simp
  then have a2: "its ! Suc k =
           (if mp_eq_zero ops (its ! k) then mp_of_int ops 0
            else mp_mul ops (mp_add ops (its ! k) (mp_div ops a (its ! k)))
                   (mp_of_double ops (1 / 2)))"
    by (simp only: heron_step_def)
  have a2': "its ! Suc k =
              mp_mul ops (mp_of_double ops (1 / 2))
                (mp_add ops (its ! k) (mp_div ops a (its ! k)))"
    if "\<forall>u v. mp_mul ops u v = mp_mul ops v u" and "\<not> mp_eq_zero ops (its ! k)"
    using a2 that by simp
  have a3: "fst (newton_heron ops a x0 n) = last its"
    unfolding form by (simp only: newton_heron_closed fst_conv iterates_last)
  have a4: "its ! j = mp_of_int ops 0"
    if law: "mp_eq_zero ops (mp_of_int ops 0)" and z: "mp_eq_zero ops (its ! k)"
      and kj: "k < j" and jl: "j < length its" for j
  proof -
    have jn: "j \<le> nat n" using jl len by simp
    have "mp_eq_zero ops ((?f ^^ k) x0)" using z nth [of k] kn by simp
    from heron_step_after_zero [OF law this kj] show ?thesis using nth [OF jn] by simp
  qed
  show ?thesis using a1 a2 a2' a3 a4 by blast
qed

lemma newton_heron_sample: "newton_heron exact_ops 2 1 3 = (577 / 408, [1, 3 / 2, 17 / 12, 577 / 408])"
  by code_simp

lemma newton_heron_zero_seed: "newton_heron exact_ops 4 0 2 = (0, [0, 0, 0])"
  by code_simp

theorem newton_heron_recurrence_witness:
  "int 1 < 3 \<and>
   snd (newton_heron exact_ops 2 1 3) ! Suc 1 = (3 / 2 + 2 / (3 / 2)) * (1 / 2) \<and>
   (\<forall>u v. mp_mul exact_ops u v = mp_mul exact_ops v u) \<and>
   snd (newton_heron exact_ops 2 1 3) ! Suc 1 = 1 / 2 * (3 / 2 + 2 / (3 / 2)) \<and>
   mp_eq_zero exact_ops (snd (newton_heron exact_ops 4 0 2) ! 0) \<and>
   snd (newton_heron exact_ops 4 0 2) ! 2 = 0"
proof -
  have h1: "int 1 < 3" by simp
  have e: "mp_eq_zero exact_ops x = (x = 0)" "mp_of_int exact_ops 0 = 0"
    "mp_mul exact_ops x y = x * y" "mp_add exact_ops x y = x + y" "mp_div exact_ops x y = x / y"
    "mp_of_double exact_ops d = d" for x y d
    by (simp_all add: exact_ops_def)
  from newton_heron_recurrence [OF refl h1, of exact_ops 2 1]
  have c1: "snd (newton_heron exact_ops 2 1 3) ! Suc 1 = (3 / 2 + 2 / (3 / 2)) * (1 / 2)"
    by (simp add: newton_heron_sample e)
  have comm: "\<forall>u v. mp_mul exact_ops u v = mp_mul exact_ops v u"
    by (simp add: e)
  from newton_heron_recurrence [OF refl h1, of exact_ops 2 1] comm
  have c1': "snd (newton_heron exact_ops 2 1 3) ! Suc 1 = 1 / 2 * (3 / 2 + 2 / (3 / 2))"
    by (simp add: newton_heron_sample e)
  have h2: "int 0 < 2" by simp
  from newton_heron_recurrence [OF refl h2, of exact_ops 4 0]
  have c2: "snd (newton_heron exact_ops 4 0 2) ! 2 = 0"
    by (simp add: newton_heron_zero_seed e)
  have c3: "mp_eq_zero exact_ops (snd (newton_heron exact_ops 4 0 2) ! 0)"
    by (simp add: newton_heron_zero_seed e)
  show ?thesis using h1 c1 c1' comm c2 c3 by simp
qed

section \<open>The reciprocal step\<close>

text \<open>
  Claim C2. For every input \<open>a\<close>, every reciprocal seed \<open>y\<^sub>0\<close> and every step \<open>k\<close> of
  \<^verbatim>\<open>reciprocal_sqrt\<close>: the stored sequence starts with \<open>y\<^sub>0\<close>, the value stored after \<open>y\<^sub>k\<close> is
  \<open>y\<^sub>k * (1.5 - 0.5 * a * y\<^sub>k\<^sup>2)\<close>, so the sequence holds the reciprocal values and not
  \<open>a * y\<^sub>k\<close>, and the square-root estimate returned is \<open>a\<close> times the last stored value.
\<close>

theorem reciprocal_sqrt_recurrence:
  assumes its: "its = snd (reciprocal_sqrt ops a y0 n)"
  shows "its ! 0 = y0 \<and>
         fst (reciprocal_sqrt ops a y0 n) = mp_mul ops a (last its) \<and>
         (\<forall>k. int k < n \<longrightarrow>
            Suc k < length its \<and>
            its ! Suc k =
              mp_mul ops (its ! k)
                (mp_sub ops (mp_of_double ops (3 / 2))
                   (mp_mul ops (mp_mul ops (mp_of_double ops (1 / 2)) a)
                      (mp_mul ops (its ! k) (its ! k)))))"
proof -
  let ?f = "recip_step ops a"
  have form: "its = map (\<lambda>j. (?f ^^ j) y0) [0..<Suc (nat n)]"
    by (simp only: its reciprocal_sqrt_closed snd_conv)
  have len: "length its = Suc (nat n)"
    unfolding form by (rule iterates_length)
  have nth: "its ! j = (?f ^^ j) y0" if "j \<le> nat n" for j
    unfolding form using that by (rule iterates_nth)
  have a1: "its ! 0 = y0" using nth [of 0] by simp
  have a2: "fst (reciprocal_sqrt ops a y0 n) = mp_mul ops a (last its)"
    unfolding form by (simp only: reciprocal_sqrt_closed fst_conv iterates_last)
  have a3: "Suc k < length its \<and>
            its ! Suc k =
              mp_mul ops (its ! k)
                (mp_sub ops (mp_of_double ops (3 / 2))
                   (mp_mul ops (mp_mul ops (mp_of_double ops (1 / 2)) a)
                      (mp_mul ops (its ! k) (its ! k))))" if k: "int k < n" for k
  proof -
    have kn: "Suc k \<le> nat n" using k by linarith
    have "its ! Suc k = ?f (its ! k)"
      using nth [of "Suc k"] nth [of k] kn by simp
    then show ?thesis using kn len by (simp only: recip_step_def) simp
  qed
  show ?thesis using a1 a2 a3 by blast
qed

lemma reciprocal_sqrt_sample:
  "reciprocal_sqrt exact_ops 4 (1 / 4) 2 = (7117 / 4096, [1 / 4, 11 / 32, 7117 / 16384])"
  by code_simp

theorem reciprocal_sqrt_recurrence_witness:
  "int 1 < 2 \<and>
   snd (reciprocal_sqrt exact_ops 4 (1 / 4) 2) ! Suc 1 =
     11 / 32 * (3 / 2 - 1 / 2 * 4 * (11 / 32 * (11 / 32))) \<and>
   fst (reciprocal_sqrt exact_ops 4 (1 / 4) 2) = 4 * (7117 / 16384)"
proof -
  have h1: "int 1 < 2" by simp
  have e: "mp_mul exact_ops x y = x * y" "mp_sub exact_ops x y = x - y"
    "mp_of_double exact_ops d = d" for x y d
    by (simp_all add: exact_ops_def)
  from reciprocal_sqrt_recurrence [OF refl, of exact_ops 4 "1 / 4" 2] h1
  show ?thesis
    by (simp add: reciprocal_sqrt_sample e)
qed

section \<open>The shape of the iterate sequence\<close>

text \<open>
  Claim C3. For both methods, every seed and every iteration count \<open>n \<ge> 0\<close>, the
  sequence returned has \<open>n + 1\<close> entries and entry 0 is the seed; with \<open>n = 0\<close> it is
  the seed alone.
\<close>

theorem iterate_sequence_shape:
  assumes n: "0 \<le> n"
  shows "length (snd (newton_heron ops a x0 n)) = nat n + 1 \<and>
         snd (newton_heron ops a x0 n) ! 0 = x0 \<and>
         length (snd (reciprocal_sqrt ops a y0 n)) = nat n + 1 \<and>
         snd (reciprocal_sqrt ops a y0 n) ! 0 = y0 \<and>
         newton_heron ops a x0 0 = (x0, [x0]) \<and>
         snd (reciprocal_sqrt ops a y0 0) = [y0]"
proof -
  have h0: "map (\<lambda>j. (f ^^ j) x) [0..<Suc m] ! 0 = x" for f :: "'a \<Rightarrow> 'a" and x m
    using iterates_nth [of 0 m f x] by simp
  show ?thesis
    unfolding newton_heron_closed reciprocal_sqrt_closed snd_conv
    by (simp only: iterates_length h0) simp
qed

theorem iterate_sequence_shape_witness:
  "(0 :: int) \<le> 3 \<and> length (snd (newton_heron exact_ops 2 1 3)) = 4 \<and>
   snd (newton_heron exact_ops 2 1 3) ! 0 = 1 \<and>
   length (snd (reciprocal_sqrt exact_ops 2 1 3)) = 4"
  using iterate_sequence_shape [of 3 exact_ops 2 1 1] by simp

section \<open>The automatic guess\<close>

lemma ll_div_two: "ll_div p 2 = (if 0 \<le> p then p div 2 else (p + 1) div 2)"
proof (cases "0 \<le> p")
  case True
  then show ?thesis by (simp add: ll_div_def)
next
  case False
  then have "- ((- p) div 2) = (p + 1) div 2" by presburger
  with False show ?thesis by (simp add: ll_div_def)
qed

text \<open>
  Claim C5. \<^verbatim>\<open>auto_initial_guess\<close> returns \<^verbatim>\<open>mpreal(0)\<close> for an input equal to zero. For an
  input that is neither zero nor negative it returns \<open>2\<close> to the power \<open>(e + 2) / 2\<close>,
  where \<open>e\<close> is the floor, taken in \<^verbatim>\<open>double\<close>, of \<open>log(a) / log(2)\<close> and \<open>/\<close> is the integer
  division of C++, which rounds towards zero: the exponent is \<open>\<lfloor>(e + 2) / 2\<rfloor>\<close> from
  \<open>e = -2\<close> upwards and \<open>\<lfloor>(e + 3) / 2\<rfloor>\<close> below.
\<close>

theorem auto_initial_guess_seed:
  assumes e: "e = mp_floor_ll ops (mp_div ops (mp_log ops a) (mp_log ops (mp_of_int ops 2)))"
  shows "(mp_eq_zero ops a \<longrightarrow> auto_initial_guess ops a = Inr (mp_of_int ops 0)) \<and>
         (\<not> mp_eq_zero ops a \<and> \<not> mp_lt_zero ops a \<longrightarrow>
            auto_initial_guess ops a =
              Inr (mp_pow ops (mp_of_int ops 2) (mp_of_int ops (ll_div (e + 2) 2))) \<and>
            ll_div (e + 2) 2 = (if - 2 \<le> e then (e + 2) div 2 else (e + 3) div 2))"
proof -
  have "ll_div (e + 2) 2 = (if - 2 \<le> e then (e + 2) div 2 else (e + 3) div 2)"
    by (simp add: ll_div_two add.commute)
  then show ?thesis
    by (simp add: auto_initial_guess_def e Let_def)
qed

lemma floor_log_eight:
  "mp_floor_ll exact_ops (mp_div exact_ops (mp_log exact_ops 8) (mp_log exact_ops (mp_of_int exact_ops 2))) = 3"
  by code_simp

theorem auto_initial_guess_seed_witness:
  "mp_eq_zero exact_ops 0 \<and> auto_initial_guess exact_ops 0 = Inr 0 \<and>
   \<not> mp_eq_zero exact_ops 8 \<and> \<not> mp_lt_zero exact_ops 8 \<and>
   auto_initial_guess exact_ops 8 = Inr (2 ^ 2) \<and> ll_div (3 + 2) 2 = 2"
proof -
  have z: "mp_eq_zero exact_ops x = (x = 0)" "mp_lt_zero exact_ops x = (x < 0)"
     "mp_of_int exact_ops i = of_int i" "mp_pow exact_ops x y = exact_pow x y" for x y i
    by (simp_all add: exact_ops_def)
  from auto_initial_guess_seed [OF refl, of exact_ops 0]
  have c0: "auto_initial_guess exact_ops 0 = Inr 0" by (simp add: z)
  from auto_initial_guess_seed [OF floor_log_eight [symmetric]]
  have c8: "auto_initial_guess exact_ops 8 = Inr (2 ^ 2) \<and> ll_div (3 + 2) 2 = 2"
    by (simp add: z exact_pow_def)
  show ?thesis using c0 c8 by (simp add: z)
qed

section \<open>The error columns\<close>

lemma error_rows_closed:
  "error_rows ops its reference i =
     map (\<lambda>j. (j, its ! j, mp_abs ops (mp_sub ops (its ! j) reference),
               (if mp_eq_zero ops reference then mp_of_int ops 0
                else mp_div ops (mp_abs ops (mp_sub ops (its ! j) reference))
                       (mp_abs ops reference))))
       [i..<length its]"
proof (induction ops its reference i rule: error_rows.induct)
  case (1 ops its reference i)
  show ?case
  proof (cases "i < length its")
    case True
    then have u: "[i..<length its] = i # [i + 1..<length its]"
      by (simp add: upt_conv_Cons)
    show ?thesis
      using True "1.IH" [OF True refl refl refl]
      by (subst error_rows.simps) (simp only: u Let_def list.map if_True)
  next
    case False
    then show ?thesis by (subst error_rows.simps) simp
  qed
qed

text \<open>
  Claim C10. The error columns are a total function of the sequence and the reference:
  there is one row for each iterate, its absolute error is \<open>|value - reference|\<close>, and
  its relative error is \<^verbatim>\<open>mpreal(0)\<close> when \<open>reference == 0\<close> and the absolute error over
  \<open>|reference|\<close> otherwise, with no division in the first case. The file writer and the
  table of \<^verbatim>\<open>main\<close> compute the same rows. Consequently, for a reference that behaves
  like a number around zero, the relative error of an iterate that is the reference
  itself compares equal to zero, whether the reference is zero or not.
\<close>

theorem error_annotation_total:
  assumes rows: "rows = error_rows ops its reference 0"
  shows "length rows = length its \<and>
         save_iterations_csv ops its reference = rows \<and>
         table (report_of ops opt a reference x0 y0 (approx, its)) = rows \<and>
         (\<forall>i. i < length its \<longrightarrow>
            rows ! i =
              (i, its ! i, mp_abs ops (mp_sub ops (its ! i) reference),
               (if mp_eq_zero ops reference then mp_of_int ops 0
                else mp_div ops (mp_abs ops (mp_sub ops (its ! i) reference))
                       (mp_abs ops reference)))) \<and>
         (zero_laws ops reference \<longrightarrow>
            (\<forall>i. i < length its \<and> its ! i = reference \<longrightarrow>
               mp_eq_zero ops (snd (snd (snd (rows ! i))))))"
proof -
  let ?row = "\<lambda>j. (j, its ! j, mp_abs ops (mp_sub ops (its ! j) reference),
               (if mp_eq_zero ops reference then mp_of_int ops 0
                else mp_div ops (mp_abs ops (mp_sub ops (its ! j) reference))
                       (mp_abs ops reference)))"
  have form: "rows = map ?row [0..<length its]"
    unfolding rows by (rule error_rows_closed)
  have a1: "length rows = length its" unfolding form by simp
  have a2: "save_iterations_csv ops its reference = rows"
    by (simp only: save_iterations_csv_def rows)
  have a3: "table (report_of ops opt a reference x0 y0 (approx, its)) = rows"
    by (simp add: report_of_def rows Let_def)
  have a4: "rows ! i = ?row i" if "i < length its" for i
    unfolding form using that by simp
  have a5: "mp_eq_zero ops (snd (snd (snd (rows ! i))))"
    if laws: "zero_laws ops reference" and i: "i < length its" and eq: "its ! i = reference"
    for i
  proof (cases "mp_eq_zero ops reference")
    case True
    then show ?thesis using laws a4 [OF i] by (simp add: zero_laws_def)
  next
    case False
    have z: "mp_eq_zero ops (mp_abs ops (mp_sub ops reference reference))"
      using laws by (simp add: zero_laws_def)
    have "mp_eq_zero ops (mp_div ops (mp_abs ops (mp_sub ops reference reference))
                            (mp_abs ops reference))"
      using laws z False unfolding zero_laws_def by blast
    then show ?thesis using False a4 [OF i] eq by simp
  qed
  show ?thesis using a1 a2 a3 a4 a5 by blast
qed

lemma exact_zero_laws: "zero_laws exact_ops r"
  by (simp add: zero_laws_def exact_ops_def)

theorem error_annotation_total_witness:
  "zero_laws exact_ops 2 \<and> zero_laws exact_ops 0 \<and>
   error_rows exact_ops [1, 2] 2 0 ! 0 = (0, 1, \<bar>1 - 2\<bar>, \<bar>1 - 2\<bar> / \<bar>2\<bar>) \<and>
   mp_eq_zero exact_ops (snd (snd (snd (error_rows exact_ops [1, 2] 2 0 ! 1)))) \<and>
   error_rows exact_ops [0, 3] 0 0 ! 1 = (1, 3, \<bar>3 - 0\<bar>, 0) \<and>
   mp_eq_zero exact_ops (snd (snd (snd (error_rows exact_ops [0, 3] 0 0 ! 0))))"
proof -
  have e: "mp_eq_zero exact_ops x = (x = 0)" "mp_of_int exact_ops 0 = 0"
    "mp_abs exact_ops x = \<bar>x\<bar>" "mp_sub exact_ops x y = x - y" "mp_div exact_ops x y = x / y"
    for x y
    by (simp_all add: exact_ops_def)
  note t1 = error_annotation_total [OF refl, of exact_ops "[1, 2]" 2]
  note t2 = error_annotation_total [OF refl, of exact_ops "[0, 3]" 0]
  have r1: "\<forall>i. i < length [1, 2 :: rat] \<longrightarrow>
      error_rows exact_ops [1, 2] 2 0 ! i =
        (i, [1, 2] ! i, \<bar>[1, 2] ! i - 2\<bar>, \<bar>[1, 2] ! i - 2\<bar> / \<bar>2\<bar>)"
    using t1 by (simp add: e)
  have z1: "\<forall>i. i < length [1, 2 :: rat] \<and> [1, 2] ! i = (2 :: rat) \<longrightarrow>
      mp_eq_zero exact_ops (snd (snd (snd (error_rows exact_ops [1, 2] 2 0 ! i))))"
    using t1 exact_zero_laws by blast
  have r2: "\<forall>i. i < length [0, 3 :: rat] \<longrightarrow>
      error_rows exact_ops [0, 3] 0 0 ! i = (i, [0, 3] ! i, \<bar>[0, 3] ! i - 0\<bar>, 0)"
    using t2 by (simp add: e)
  have z2: "\<forall>i. i < length [0, 3 :: rat] \<and> [0, 3] ! i = (0 :: rat) \<longrightarrow>
      mp_eq_zero exact_ops (snd (snd (snd (error_rows exact_ops [0, 3] 0 0 ! i))))"
    using t2 exact_zero_laws by blast
  have c1: "error_rows exact_ops [1, 2] 2 0 ! 0 = (0, 1, \<bar>1 - 2\<bar>, \<bar>1 - 2\<bar> / \<bar>2\<bar>)"
    using r1 [rule_format, of 0] by simp
  have c2: "mp_eq_zero exact_ops (snd (snd (snd (error_rows exact_ops [1, 2] 2 0 ! 1))))"
    using z1 [rule_format, of 1] by simp
  have c3: "error_rows exact_ops [0, 3] 0 0 ! 1 = (1, 3, \<bar>3 - 0\<bar>, 0)"
    using r2 [rule_format, of 1] by simp
  have c4: "mp_eq_zero exact_ops (snd (snd (snd (error_rows exact_ops [0, 3] 0 0 ! 0))))"
    using z2 [rule_format, of 0] by simp
  show ?thesis using exact_zero_laws c1 c2 c3 c4 by simp
qed

section \<open>The program, unfolded\<close>

lemma build_reference_cases:
  "build_reference lib opt a st =
     (case mp_of_string (lib (default_prec st + 64)) (number opt) of
        None \<Rightarrow> (Inl ParseException, st\<lparr>default_prec := default_prec st + 64\<rparr>)
      | Some a_high \<Rightarrow>
          (Inr (case mp_of_string (lib (default_prec st))
                       (mp_to_scientific (lib (default_prec st + 64))
                          (sint (ucast (prec_digits opt + 20) :: 32 word))
                          (mp_sqrt (lib (default_prec st + 64)) a_high)) of
                  Some r \<Rightarrow> r
                | None \<Rightarrow> mp_sqrt (lib (default_prec st)) a),
           st))"
  by (simp add: build_reference_def current_def set_default_prec_def get_default_prec_def
      Let_def split: option.split)

lemma main_model_cases:
  assumes "\<not> show_help opt"
  shows "main_model lib opt st0 =
     (let st1 = st0\<lparr>default_prec := digits_to_bits (prec_digits opt)\<rparr>;
          ops = lib (digits_to_bits (prec_digits opt))
      in case mp_of_string ops (number opt) of
           None \<Rightarrow> (Inl ParseError, st1)
         | Some a \<Rightarrow>
             if mp_lt_zero ops a then (Inl NegativeInput, st1)
             else
               (case build_reference lib opt a st1 of
                  (Inl e, st2) \<Rightarrow> (Inl (Uncaught e), st2)
                | (Inr reference, st2) \<Rightarrow>
                    (case prepare_guess (lib (default_prec st2)) opt a of
                       Inl f \<Rightarrow> (Inl f, st2)
                     | Inr x0 \<Rightarrow>
                         (case prepare_reciprocal (lib (default_prec st2)) opt x0 of
                            Inl f \<Rightarrow> (Inl f, st2)
                          | Inr y0 \<Rightarrow>
                              (case run_method (lib (default_prec st2)) opt a x0 y0 of
                                 Inl f \<Rightarrow> (Inl f, st2)
                               | Inr raw_result \<Rightarrow>
                                   (Inr (Report (report_of (lib (default_prec st2)) opt a
                                                   reference x0 y0 raw_result)), st2))))))"
  using assms
  by (simp add: main_model_def current_def set_default_prec_def get_default_prec_def Let_def
      split: option.split prod.split sum.split)

text \<open>With a setter that takes whatever it is handed, \<open>main_run\<close> is \<open>main_model\<close>.\<close>

lemma main_run_returns:
  assumes "\<forall>p. prec_ok p"
  shows "main_run prec_ok lib opt st = Ended (main_model lib opt st)"
proof (cases "show_help opt")
  case True
  then show ?thesis by (simp add: main_run_def main_model_def)
next
  case False
  then show ?thesis
    using assms
    by (simp add: main_run_def main_model_cases Let_def set_default_prec_def
        get_default_prec_def current_def split: option.split)
qed

section \<open>Rejected inputs\<close>

text \<open>
  Claim C8. For every input that parses to a negative value, the run ends with the
  negative-input failure and no report. \<^verbatim>\<open>auto_initial_guess\<close> itself throws on a
  negative value (one that is below zero and not equal to it) instead of computing a
  seed.
\<close>

theorem negative_input_rejected:
  assumes "\<not> show_help opt"
    and "mp_of_string (lib (digits_to_bits (prec_digits opt))) (number opt) = Some a"
    and "mp_lt_zero (lib (digits_to_bits (prec_digits opt))) a"
  shows "fst (main_model lib opt st) = Inl NegativeInput \<and>
         (mp_lt_zero ops b \<and> \<not> mp_eq_zero ops b \<longrightarrow>
            auto_initial_guess ops b = Inl (RuntimeError ''auto_initial_guess: negative input''))"
  using assms by (simp add: main_model_cases auto_initial_guess_def)

lemma negative_options_parse:
  "mp_of_string (exact_lib (digits_to_bits (prec_digits negative_options))) (number negative_options)
     = Some (- 1)"
  by code_simp

theorem negative_input_rejected_witness:
  "\<not> show_help negative_options \<and>
   mp_lt_zero (exact_lib (digits_to_bits (prec_digits negative_options))) (- 1) \<and>
   fst (main_model exact_lib negative_options \<lparr>default_prec = 53\<rparr>) = Inl NegativeInput \<and>
   auto_initial_guess exact_ops (- 1) = Inl (RuntimeError ''auto_initial_guess: negative input'')"
proof -
  have h1: "\<not> show_help negative_options"
    by (simp add: negative_options_def sample_options_def)
  have h3: "mp_lt_zero (exact_lib p) (- 1)" "mp_lt_zero exact_ops (- 1)"
    "\<not> mp_eq_zero exact_ops (- 1)" for p
    by (simp_all add: exact_lib_def exact_ops_def)
  from negative_input_rejected [where opt = negative_options and lib = exact_lib and a = "- 1"
      and st = "\<lparr>default_prec = 53\<rparr>" and ops = exact_ops and b = "- 1",
      OF h1 negative_options_parse h3(1)]
  show ?thesis using h1 h3 by simp
qed

text \<open>
  Claim C9 asks that a malformed manual guess end the run with the parse failure and
  never be replaced by a value. The program does not do that: line 218 hands the guess
  to the string constructor with no validation and outside any \<^verbatim>\<open>try\<close> block, unlike the
  number at lines 175-181. With a constructor that does not throw, the guess \<^verbatim>\<open>2x\<close> is
  read as 2 and the run returns a full report computed from that guess; with one that
  throws, the exception leaves \<^verbatim>\<open>main\<close> uncaught, which is not the failure the number's
  parse returns either.
\<close>

theorem malformed_guess_run:
  "main_model lenient_lib malformed_guess_options \<lparr>default_prec = 53\<rparr> =
     (Inr (Report
        \<lparr>guess_used = 2, reference_value = 2, builtin_sqrt = 2,
           final_approx = 2, final_abs_err = 0, final_rel_err = 0,
           table = [(0, 2, 0, 0), (1, 2, 0, 0), (2, 2, 0, 0)],
           csv = None\<rparr>),
      \<lparr>default_prec = 34\<rparr>) \<and>
   main_model exact_lib malformed_guess_options \<lparr>default_prec = 53\<rparr> =
     (Inl (Uncaught ParseException), \<lparr>default_prec = 34\<rparr>)"
  by code_simp

section \<open>The reference\<close>

lemma stream_precision_in_range:
  fixes d :: "64 word"
  assumes b: "uint d + 20 < 2 ^ 31"
  shows "sint (ucast (d + 20) :: 32 word) = uint d + 20"
proof -
  define n where "n = uint d"
  have bn: "0 \<le> n" "n + 20 < 2 ^ 31" using b by (simp_all add: n_def)
  have "uint d + uint (20 :: 64 word) < 2 ^ LENGTH(64)" using b by simp
  then have "uint (d + 20) = uint d + uint (20 :: 64 word)"
    using uint_add_lem [of d 20] by blast
  then have u: "uint (d + 20) = n + 20" by (simp add: n_def)
  have "sint (ucast (d + 20) :: 32 word) = sint (word_of_int (n + 20) :: 32 word)"
    by (simp only: ucast_eq u)
  also have "\<dots> = (n + 20 + 2 ^ 31) mod 2 ^ 32 - 2 ^ 31"
    by (subst int_word_sint) simp
  also have "\<dots> = n + 20"
    using bn by simp
  finally show ?thesis by (simp only: n_def)
qed

lemma digits_to_bits_bound:
  fixes d :: "64 word"
  assumes b: "uint d < 2 ^ 31"
  shows "uint (digits_to_bits d) \<le> 4 * uint d"
proof -
  define n where "n = uint d"
  define k where "k = \<lceil>of_int n * LOG2_10\<rceil>"
  have bn: "0 \<le> n" "n < 2 ^ 31" using b by (simp_all add: n_def)
  have n0: "(0 :: rat) \<le> of_int n" using bn by simp
  have L: "0 \<le> LOG2_10" "LOG2_10 \<le> 4" by (simp_all add: LOG2_10_def)
  have "(0 :: rat) \<le> of_int n * LOG2_10"
    using n0 L(1) by (rule mult_nonneg_nonneg)
  from ceiling_mono [OF this] have nonneg: "0 \<le> k"
    by (simp add: k_def)
  have "of_int n * LOG2_10 \<le> of_int n * (4 :: rat)"
    using L(2) n0 by (rule mult_left_mono)
  then have "of_int n * LOG2_10 \<le> of_int (4 * n)"
    by (simp add: mult.commute)
  then have upper: "k \<le> 4 * n"
    by (simp only: k_def ceiling_le_iff)
  have "k < 2 ^ 64" using upper bn by simp
  then have "uint (word_of_int k :: 64 word) = k"
    using nonneg by (simp add: uint_word_of_int)
  moreover have "digits_to_bits d = word_of_int k"
    by (simp only: digits_to_bits_def k_def n_def)
  ultimately have "uint (digits_to_bits d) \<le> 4 * n" using upper by simp
  then show ?thesis by (simp only: n_def)
qed

lemma elevated_precision_exact:
  fixes d :: "64 word"
  assumes b: "uint d + 20 < 2 ^ 31"
  shows "uint (digits_to_bits d + 64) = uint (digits_to_bits d) + 64"
proof -
  have "uint (digits_to_bits d) \<le> 4 * uint d"
    using b by (intro digits_to_bits_bound) simp
  then have "uint (digits_to_bits d) + uint (64 :: 64 word) < 2 ^ LENGTH(64)"
    using b by simp
  then have "uint (digits_to_bits d + 64) = uint (digits_to_bits d) + uint (64 :: 64 word)"
    using uint_add_lem [of "digits_to_bits d" 64] by blast
  then show ?thesis by simp
qed

lemma digits_to_bits_zero: "digits_to_bits 0 = 0"
  by (simp add: digits_to_bits_def)

text \<open>
  Claim C4, amended. For a digit count with \<open>digits + 20\<close> below \<open>2\<^sup>3\<^sup>1\<close>, the reference
  is built in these steps: the default precision is raised by exactly 64 bits; the
  original input string is parsed again under the raised precision; the native square
  root of that value is taken; the root is written in scientific format with the stream
  precision set to \<open>digits + 20\<close>; the default precision is set back to the working
  one; the string is parsed under the working precision. When that last parse throws,
  the reference is the native square root of the input as parsed at the working
  precision, and the run goes on.
\<close>

theorem reference_builder_steps:
  assumes bound: "uint (prec_digits opt) + 20 < 2 ^ 31"
    and working: "default_prec st = digits_to_bits (prec_digits opt)"
    and elevated: "mp_of_string (lib (default_prec st + 64)) (number opt) = Some a_high"
    and ref_str: "ref_str =
        mp_to_scientific (lib (default_prec st + 64)) (uint (prec_digits opt) + 20)
          (mp_sqrt (lib (default_prec st + 64)) a_high)"
  shows "uint (default_prec st + 64) = uint (default_prec st) + 64 \<and>
         build_reference lib opt a st =
           (Inr (case mp_of_string (lib (default_prec st)) ref_str of
                   Some r \<Rightarrow> r
                 | None \<Rightarrow> mp_sqrt (lib (default_prec st)) a),
            st)"
proof -
  have a1: "uint (default_prec st + 64) = uint (default_prec st) + 64"
    unfolding working using bound by (rule elevated_precision_exact)
  have a2: "build_reference lib opt a st =
           (Inr (case mp_of_string (lib (default_prec st)) ref_str of
                   Some r \<Rightarrow> r
                 | None \<Rightarrow> mp_sqrt (lib (default_prec st)) a),
            st)"
    by (simp only: build_reference_cases elevated option.case ref_str
        stream_precision_in_range [OF bound])
  show ?thesis using a1 a2 by (rule conjI)
qed

lemma sample_reference_facts:
  "uint (prec_digits sample_options) + 20 < 2 ^ 31"
  "digits_to_bits (prec_digits sample_options) = 34"
  "mp_of_string (exact_lib (34 + 64)) (number sample_options) = Some 4"
  "mp_to_scientific (exact_lib (34 + 64)) (uint (prec_digits sample_options) + 20)
     (mp_sqrt (exact_lib (34 + 64)) 4) = ''2''"
  "mp_of_string (exact_lib 34) ''2'' = Some 2"
  by code_simp+

theorem reference_builder_steps_witness:
  "uint (prec_digits sample_options) + 20 < 2 ^ 31 \<and>
   mp_of_string (exact_lib (34 + 64)) (number sample_options) = Some 4 \<and>
   uint (34 + 64 :: 64 word) = uint (34 :: 64 word) + 64 \<and>
   build_reference exact_lib sample_options 4 \<lparr>default_prec = 34\<rparr> =
     (Inr 2, \<lparr>default_prec = 34\<rparr>)"
  using reference_builder_steps [where opt = sample_options and st = "\<lparr>default_prec = 34\<rparr>"
      and lib = exact_lib and a_high = 4 and a = 4 and ref_str = "''2''"]
    sample_reference_facts
  by simp

text \<open>With 2147483628 digits the sum is \<open>2\<^sup>3\<^sup>1\<close>, and the printer is handed \<open>-2\<^sup>3\<^sup>1\<close>.\<close>

theorem reference_digits_counterexample:
  "uint (prec_digits huge_digits_options) + 20 = 2147483648 \<and>
   fst (build_reference probe_lib huge_digits_options 4
          \<lparr>default_prec = digits_to_bits (prec_digits huge_digits_options)\<rparr>) =
     Inr (- 2147483648)"
  by code_simp

section \<open>The precision register at the exits\<close>





section \<open>A digit count of zero\<close>

text \<open>
  Claim C7, amended. A digit count of 0 is not rejected by the program:
  \<^verbatim>\<open>digits_to_bits\<close> gives 0 bits, and line 171 hands them to the setter of the library
  with no check before it. The run is cut short there, inside the library and with no
  failure of the program's own, exactly when the library refuses a precision of 0 bits.
\<close>

theorem zero_digits_handed_to_library:
  assumes zero: "prec_digits opt = 0" and run: "\<not> show_help opt"
  shows "digits_to_bits (prec_digits opt) = 0 \<and>
         (main_run prec_ok lib opt st = AbortedInSetter 0) = (\<not> prec_ok 0)"
proof -
  have b: "digits_to_bits (prec_digits opt) = 0"
    by (simp only: zero digits_to_bits_zero)
  have "(main_run prec_ok lib opt st = AbortedInSetter 0) = (\<not> prec_ok 0)"
    using run
    by (simp add: main_run_def b Let_def set_default_prec_def get_default_prec_def
        split: option.split)
  with b show ?thesis by (rule conjI)
qed

lemma zero_digits_facts:
  "prec_digits zero_digits_options = 0"
  "\<not> show_help zero_digits_options"
  "\<not> positive_prec 0"
  by code_simp+

theorem zero_digits_handed_to_library_witness:
  "prec_digits zero_digits_options = 0 \<and> \<not> show_help zero_digits_options \<and>
   digits_to_bits (prec_digits zero_digits_options) = 0 \<and> \<not> positive_prec 0 \<and>
   main_run positive_prec probe_lib zero_digits_options \<lparr>default_prec = 53\<rparr> =
     AbortedInSetter 0"
  using zero_digits_handed_to_library [where opt = zero_digits_options and lib = probe_lib
      and prec_ok = positive_prec and st = "\<lparr>default_prec = 53\<rparr>",
      OF zero_digits_facts(1,2)]
    zero_digits_facts
  by simp

text \<open>The run on 0 digits, with a setter that refuses 0 bits.\<close>

theorem zero_digits_counterexample:
  "prec_digits zero_digits_options = 0 \<and>
   main_run positive_prec exact_lib zero_digits_options \<lparr>default_prec = 53\<rparr> =
     AbortedInSetter 0"
  by code_simp

end
